theory Spec2Isabelle
  imports Main "HOL-Library.Word" "HOL-Library.Log_Nat"
begin

section \<open>The module test-python.py\<close>

text \<open>
  The repository is one Python file: two module constants, a class \<open>Calculator\<close> with a
  constructor, an instance method \<open>add\<close> and a static method \<open>multiply\<close>, and a function
  \<open>main\<close> that binds one literal of every kind, prints two lines and returns the
  calculator it built. The embedding follows the file top to bottom.

  Parameters carry the types of their annotations (\<open>name: str\<close>, \<open>x: int\<close>, \<open>y: int\<close>),
  Python's unbounded \<open>int\<close> is HOL's \<open>int\<close>, \<open>str\<close> is \<open>string\<close>, \<open>bytes\<close> is a list of
  8-bit words. Errors are values of \<open>py_error\<close>; standard output is a string that
  \<open>print\<close> extends.
\<close>

subsection \<open>Module constants\<close>

text \<open>
  \<^verbatim>\<open>DEBUG = True\<close> and \<^verbatim>\<open>MAX_SIZE = 100\<close> are module globals. Every function of the module
  can read them, so every function of the embedding takes the globals as its first
  argument.
\<close>

record globals =
  DEBUG :: bool
  MAX_SIZE :: int

definition module_globals :: globals where
  "module_globals = \<lparr>DEBUG = True, MAX_SIZE = 100\<rparr>"

subsection \<open>Errors and standard output\<close>

datatype py_error = ZeroDivisionError | OverflowError

definition newline :: char where
  "newline = CHR 0x0A"

definition py_print :: "string \<Rightarrow> string \<Rightarrow> string" where
  \<comment> \<open>\<^verbatim>\<open>print(s)\<close>: the text and a line feed go to standard output.\<close>
  "py_print s out = out @ s @ [newline]"

subsection \<open>Integers: floor division, sum, decimal text\<close>

definition py_floordiv :: "int \<Rightarrow> int \<Rightarrow> py_error + int" where
  \<comment> \<open>\<^verbatim>\<open>a // b\<close> on ints rounds towards minus infinity, as \<open>div\<close> does, and raises on 0.\<close>
  "py_floordiv a b = (if b = 0 then Inl ZeroDivisionError else Inr (a div b))"

definition py_sum :: "int list \<Rightarrow> int" where
  \<comment> \<open>\<^verbatim>\<open>sum(xs)\<close> starts from 0 and adds the items from left to right.\<close>
  "py_sum xs = foldl (+) 0 xs"

definition digit_char :: "nat \<Rightarrow> char" where
  "digit_char d = char_of (48 + d)"

fun nat_digits :: "nat \<Rightarrow> string" where
  "nat_digits n = (if n < 10 then [digit_char n] else nat_digits (n div 10) @ [digit_char (n mod 10)])"

declare nat_digits.simps [simp del]

definition str_int :: "int \<Rightarrow> string" where
  \<comment> \<open>\<^verbatim>\<open>str(i)\<close>, which is also what an f-string field \<^verbatim>\<open>{i}\<close> inserts for an int.\<close>
  "str_int i = (if i < 0 then CHR ''-'' # nat_digits (nat (- i)) else nat_digits (nat i))"

subsection \<open>Floats: binary64 values and how a literal is rounded\<close>

text \<open>
  A Python float is an IEEE 754 binary64 value. A finite one is given by the rational
  number it denotes; the negative zero, the infinities and NaN are values of their own.
  A decimal literal, and an int that meets a float, is rounded to the nearest binary64
  value, ties to the even significand; a magnitude that rounds to \<open>2 ^ 1024\<close> or more
  overflows.
\<close>

datatype pyfloat = Finite rat | NegZero | PosInf | NegInf | NaN

definition pow2 :: "int \<Rightarrow> rat" where
  "pow2 k = (if 0 \<le> k then 2 ^ nat k else 1 / 2 ^ nat (- k))"

definition floor_log2 :: "rat \<Rightarrow> int" where
  \<comment> \<open>For \<open>q > 0\<close>: the \<open>k\<close> with \<open>2 ^ k \<le> q < 2 ^ (k + 1)\<close>, from the bit lengths of
      numerator and denominator.\<close>
  "floor_log2 q =
     (case quotient_of q of (n, d) \<Rightarrow>
        let k = bitlen n - bitlen d in if pow2 k \<le> q then k else k - 1)"

definition round_half_even :: "rat \<Rightarrow> int" where
  "round_half_even s =
     (let f = \<lfloor>s\<rfloor>; r = s - of_int f
      in if r < 1 / 2 then f else if 1 / 2 < r then f + 1 else if even f then f else f + 1)"

definition round_magnitude :: "rat \<Rightarrow> rat" where
  \<comment> \<open>For \<open>q > 0\<close>: 53 significant bits, and no exponent below that of the subnormals.\<close>
  "round_magnitude q =
     (let e = max (floor_log2 q - 52) (- 1074)
      in of_int (round_half_even (q / pow2 e)) * pow2 e)"

definition round_binary64 :: "rat \<Rightarrow> pyfloat" where
  "round_binary64 q =
     (if q = 0 then Finite 0
      else let r = round_magnitude \<bar>q\<bar>
           in if 2 ^ 1024 \<le> r then (if q < 0 then NegInf else PosInf)
              else if r = 0 then (if q < 0 then NegZero else Finite 0)
              else Finite (if q < 0 then - r else r))"

definition float_literal :: "rat \<Rightarrow> pyfloat" where
  \<comment> \<open>The value of a float literal whose decimal text denotes \<open>q\<close>.\<close>
  "float_literal q = round_binary64 q"

definition int_to_float :: "int \<Rightarrow> py_error + pyfloat" where
  \<comment> \<open>The conversion of an int operand that meets a float or a complex: it raises
      OverflowError where the float would be infinite.\<close>
  "int_to_float i =
     (case round_binary64 (of_int i) of
        PosInf \<Rightarrow> Inl OverflowError
      | NegInf \<Rightarrow> Inl OverflowError
      | f \<Rightarrow> Inr f)"

fun float_add :: "pyfloat \<Rightarrow> pyfloat \<Rightarrow> pyfloat" where
  "float_add NaN b = NaN"
| "float_add a NaN = NaN"
| "float_add PosInf NegInf = NaN"
| "float_add NegInf PosInf = NaN"
| "float_add PosInf b = PosInf"
| "float_add a PosInf = PosInf"
| "float_add NegInf b = NegInf"
| "float_add a NegInf = NegInf"
| "float_add NegZero NegZero = NegZero"
| "float_add NegZero (Finite b) = Finite b"
| "float_add (Finite a) NegZero = Finite a"
| "float_add (Finite a) (Finite b) = round_binary64 (a + b)"

subsection \<open>Complex numbers\<close>

datatype pycomplex = PyComplex pyfloat pyfloat

definition imag_literal :: "rat \<Rightarrow> pycomplex" where
  \<comment> \<open>An imaginary literal such as \<^verbatim>\<open>4j\<close>: real part 0.0.\<close>
  "imag_literal q = PyComplex (Finite 0) (float_literal q)"

definition complex_add :: "pycomplex \<Rightarrow> pycomplex \<Rightarrow> pycomplex" where
  "complex_add a b =
     (case a of PyComplex ar ai \<Rightarrow> case b of PyComplex br bi \<Rightarrow>
        PyComplex (float_add ar br) (float_add ai bi))"

definition int_add_complex :: "int \<Rightarrow> pycomplex \<Rightarrow> py_error + pycomplex" where
  \<comment> \<open>\<^verbatim>\<open>i + c\<close>: the int becomes a complex with imaginary part 0.0, then the parts add.\<close>
  "int_add_complex i c =
     (case int_to_float i of
        Inl e \<Rightarrow> Inl e
      | Inr f \<Rightarrow> Inr (complex_add (PyComplex f (Finite 0)) c))"

subsection \<open>class Calculator\<close>

record Calculator =
  name :: string
  "value" :: int

definition Calculator_init :: "globals \<Rightarrow> string \<Rightarrow> Calculator" where
  \<comment> \<open>\<^verbatim>\<open>Calculator(n)\<close>: a fresh instance on which \<^verbatim>\<open>__init__\<close> sets the two attributes.\<close>
  "Calculator_init g n = \<lparr>name = n, value = 0\<rparr>"

definition add :: "globals \<Rightarrow> Calculator \<Rightarrow> int \<Rightarrow> int \<Rightarrow> int \<times> Calculator" where
  \<comment> \<open>An instance method: the result, and the instance as the call leaves it. The body
      is \<^verbatim>\<open>return x + y\<close> and assigns no attribute.\<close>
  "add g self x y = (x + y, self)"

definition multiply :: "globals \<Rightarrow> 'a::times \<Rightarrow> 'a \<Rightarrow> 'a" where
  \<comment> \<open>A static method: it receives no instance. The annotation \<^verbatim>\<open>float\<close> is not
      enforced and \<^verbatim>\<open>*\<close> is the product of whatever number type the arguments have, so
      the number type is left open.\<close>
  "multiply g a b = (let result = a * b in result)"

text \<open>
  A call on an instance, as a caller sees it: \<open>add\<close> goes through the instance,
  \<open>multiply\<close> is static and never sees it.
\<close>

datatype 'a call = Add int int | Multiply 'a 'a

datatype 'a returned = RetInt int | RetNum 'a

fun invoke :: "globals \<Rightarrow> Calculator \<Rightarrow> 'a::times call \<Rightarrow> 'a returned \<times> Calculator" where
  "invoke g self (Add x y) = (case add g self x y of (r, self') \<Rightarrow> (RetInt r, self'))"
| "invoke g self (Multiply a b) = (RetNum (multiply g a b), self)"

fun invoke_all :: "globals \<Rightarrow> Calculator \<Rightarrow> 'a::times call list \<Rightarrow> Calculator" where
  "invoke_all g self [] = self"
| "invoke_all g self (c # cs) = invoke_all g (snd (invoke g self c)) cs"

subsection \<open>main\<close>

text \<open>
  The values \<open>main\<close> binds, by kind. \<open>main_frame\<close> runs the body statement by statement
  and returns the local variables as they stand at the \<^verbatim>\<open>return\<close>, the returned object
  and standard output; \<open>main\<close> keeps what a caller observes. The call \<^verbatim>\<open>calc.add(5, 3)\<close>
  happens inside the f-string and hands back the instance it was called on. The
  exponent of \<^verbatim>\<open>x ** 2\<close> is a non-negative literal, so the power is the int power. Two
  statements can raise: the int 3 is converted to a float in \<^verbatim>\<open>3 + 4j\<close>, and \<^verbatim>\<open>y // 3\<close>
  divides.
\<close>

datatype pyval =
    VInt int
  | VFloat pyfloat
  | VComplex pycomplex
  | VStr string
  | VBytes "8 word list"
  | VList "int list"
  | VObj Calculator

definition backslash :: char where
  "backslash = CHR 0x5C"

definition main_frame ::
  "globals \<Rightarrow> string \<Rightarrow> py_error + ((string \<times> pyval) list \<times> Calculator \<times> string)" where
  "main_frame g out =
     (let calc = Calculator_init g ''MyCalc'';
          message = ''Hello, World!'';
          (r, calc) = add g calc 5 3;
          formatted = ''The result is: '' @ str_int r;
          raw_string = ''C:'' @ [backslash] @ ''Users'' @ [backslash] @ ''path'';
          byte_string = map of_char ''bytes'';
          decimal = 42;
          floating = float_literal (314 / 100);
          hex_num = 0xFF;
          binary = 0b1010;
          octal = 7 * 8 ^ 2 + 5 * 8 + 5
      in case int_add_complex 3 (imag_literal 4) of
           Inl e \<Rightarrow> Inl e
         | Inr complex_num \<Rightarrow>
             (let numbers = [1, 2, 3, 4, 5];
                  total = py_sum numbers;
                  out = py_print (''Total: '' @ str_int total) out;
                  x = 10;
                  y = x ^ 2
              in case py_floordiv y 3 of
                   Inl e \<Rightarrow> Inl e
                 | Inr z \<Rightarrow>
                     (let out = (if x > 5 \<and> y < 200 then py_print ''Condition met'' out else out)
                      in Inr ([(''calc'', VObj calc), (''message'', VStr message),
                               (''formatted'', VStr formatted), (''raw_string'', VStr raw_string),
                               (''byte_string'', VBytes byte_string), (''decimal'', VInt decimal),
                               (''floating'', VFloat floating), (''hex_num'', VInt hex_num),
                               (''binary'', VInt binary), (''octal'', VInt octal),
                               (''complex_num'', VComplex complex_num), (''numbers'', VList numbers),
                               (''total'', VInt total), (''x'', VInt x), (''y'', VInt y),
                               (''z'', VInt z)],
                              calc, out))))"

definition main :: "globals \<Rightarrow> string \<Rightarrow> py_error + (Calculator \<times> string)" where
  "main g out =
     (case main_frame g out of
        Inl e \<Rightarrow> Inl e
      | Inr (frame, ret, out') \<Rightarrow> Inr (ret, out'))"

definition run_module :: "string \<Rightarrow> string \<Rightarrow> py_error + string" where
  \<comment> \<open>The last statement of the module calls \<open>main\<close> when the file is run as a script
      and drops what it returns.\<close>
  "run_module module_name out =
     (if module_name = ''__main__''
      then (case main module_globals out of Inl e \<Rightarrow> Inl e | Inr (ret, out') \<Rightarrow> Inr out')
      else Inr out)"

definition main_local :: "globals \<Rightarrow> string \<Rightarrow> string \<Rightarrow> pyval option" where
  \<comment> \<open>The value a local variable of \<open>main\<close> holds at the \<^verbatim>\<open>return\<close>.\<close>
  "main_local g out v =
     (case main_frame g out of
        Inl e \<Rightarrow> None
      | Inr (frame, ret, out') \<Rightarrow> map_of frame v)"

section \<open>Evaluating the pieces of main\<close>

lemma str_int_8: "str_int 8 = ''8''"
  by code_simp

lemma str_int_15: "str_int 15 = ''15''"
  by code_simp

text \<open>
  The literal \<^verbatim>\<open>3.14\<close> denotes \<open>157 / 50\<close>, which lies in \<open>[2, 4)\<close>: the significand is
  scaled by \<open>2 ^ 51\<close> and rounded.
\<close>

lemma floor_log2_157_50: "floor_log2 (157 / 50) = 1"
  by code_simp

lemma round_half_even_scaled: "round_half_even (176766285374291968 / 25) = 7070651414971679"
  by code_simp

lemma round_magnitude_157_50: "round_magnitude (157 / 50) = 7070651414971679 / 2 ^ 51"
proof -
  have e: "max (floor_log2 (157 / 50) - 52) (- 1074) = - 51"
    by (simp add: floor_log2_157_50)
  have p: "pow2 (- 51) = 1 / 2 ^ 51"
    by (simp add: pow2_def)
  have s: "157 / 50 / pow2 (- 51) = 176766285374291968 / 25"
    by (simp add: p)
  show ?thesis
    unfolding round_magnitude_def e Let_def s round_half_even_scaled
    by (simp add: p)
qed

lemma float_literal_314: "float_literal (314 / 100) = Finite (7070651414971679 / 2 ^ 51)"
proof -
  have "round_binary64 (157 / 50) = Finite (7070651414971679 / 2 ^ 51)"
    unfolding round_binary64_def
    by (simp add: round_magnitude_157_50 Let_def)
  then show ?thesis
    by (simp add: float_literal_def)
qed

lemma int_to_float_3: "int_to_float 3 = Inr (Finite 3)"
  by code_simp

lemma float_literal_4: "float_literal 4 = Finite 4"
  by code_simp

lemma float_add_3_0: "float_add (Finite 3) (Finite 0) = Finite 3"
  by code_simp

lemma float_add_0_4: "float_add (Finite 0) (Finite 4) = Finite 4"
  by code_simp

lemma complex_3_4j: "int_add_complex 3 (imag_literal 4) = Inr (PyComplex (Finite 3) (Finite 4))"
  by (simp add: int_add_complex_def imag_literal_def complex_add_def int_to_float_3
      float_literal_4 float_add_3_0 float_add_0_4 del: float_add.simps)

lemma main_frame_eval:
  "main_frame g out =
     Inr ([(''calc'', VObj \<lparr>name = ''MyCalc'', value = 0\<rparr>),
           (''message'', VStr ''Hello, World!''),
           (''formatted'', VStr ''The result is: 8''),
           (''raw_string'', VStr (''C:'' @ [backslash] @ ''Users'' @ [backslash] @ ''path'')),
           (''byte_string'', VBytes [98, 121, 116, 101, 115]),
           (''decimal'', VInt 42),
           (''floating'', VFloat (Finite (7070651414971679 / 2 ^ 51))),
           (''hex_num'', VInt 255),
           (''binary'', VInt 10),
           (''octal'', VInt 493),
           (''complex_num'', VComplex (PyComplex (Finite 3) (Finite 4))),
           (''numbers'', VList [1, 2, 3, 4, 5]),
           (''total'', VInt 15),
           (''x'', VInt 10),
           (''y'', VInt 100),
           (''z'', VInt 33)],
          \<lparr>name = ''MyCalc'', value = 0\<rparr>,
          out @ ''Total: 15'' @ [newline] @ ''Condition met'' @ [newline])"
  unfolding main_frame_def float_literal_314 complex_3_4j
  by (simp add: Let_def Calculator_init_def add_def str_int_8 str_int_15 py_sum_def
      py_floordiv_def py_print_def)

lemma main_eval:
  "main g out =
     Inr (\<lparr>name = ''MyCalc'', value = 0\<rparr>,
          out @ ''Total: 15'' @ [newline] @ ''Condition met'' @ [newline])"
  by (simp add: main_def main_frame_eval)

lemma invoke_keeps_instance: "snd (invoke g self c) = self"
  by (cases c) (simp_all add: add_def)

lemma invoke_all_keeps_instance: "invoke_all g self cs = self"
  by (induction cs arbitrary: self) (simp_all add: invoke_keeps_instance)

section \<open>The claims\<close>


text \<open>
  C2. Running \<open>main\<close> raises nothing, whatever the globals and whatever standard output
  held before: it returns a value, and so does the module run as a script. Each
  operation is defined on the arguments it gets there: the floor division \<open>10 ** 2 // 3\<close>,
  the sum of the literal list, the two formatted fields and the complex sum.
\<close>

theorem main_raises_nothing:
  "(\<exists>ret out'. main g out = Inr (ret, out')) \<and> (\<forall>e. main g out \<noteq> Inl e)
   \<and> (\<forall>e. run_module module_name out \<noteq> Inl e)
   \<and> py_floordiv (10 ^ 2) 3 = Inr 33
   \<and> py_sum [1, 2, 3, 4, 5] = 15
   \<and> str_int (fst (add g (Calculator_init g ''MyCalc'') 5 3)) = ''8''
   \<and> str_int (py_sum [1, 2, 3, 4, 5]) = ''15''
   \<and> int_add_complex 3 (imag_literal 4) = Inr (PyComplex (Finite 3) (Finite 4))"
  by (simp add: main_eval run_module_def py_floordiv_def py_sum_def add_def str_int_8
      str_int_15 complex_3_4j)

text \<open>
  C3. For every string \<open>n\<close>, \<open>Calculator(n)\<close> is an object whose \<open>name\<close> is \<open>n\<close> and whose
  \<open>value\<close> is the integer 0.
\<close>

theorem Calculator_init_fields:
  "name (Calculator_init g n) = n \<and> value (Calculator_init g n) = 0"
  by (simp add: Calculator_init_def)


text \<open>
  C6. No function of the file depends on the module constants: under any two settings
  of \<open>DEBUG\<close> and \<open>MAX_SIZE\<close>, the constructor, \<open>add\<close>, \<open>multiply\<close> and \<open>main\<close> give the same
  results.
\<close>

theorem globals_do_not_matter:
  "Calculator_init g n = Calculator_init g' n
   \<and> add g self x y = add g' self x y
   \<and> multiply g a b = multiply g' a b
   \<and> main g out = main g' out"
  by (simp add: Calculator_init_def add_def multiply_def main_eval)

text \<open>
  C7. Every call of \<open>main\<close> appends the line \<open>Total: 15\<close> and then the line
  \<open>Condition met\<close> to standard output and returns a calculator named \<open>MyCalc\<close> with
  value 0. The total is the sum of the list, and the condition holds because \<open>x\<close> is 10
  and \<open>y\<close> is 100.
\<close>

theorem main_output:
  "main g out =
     Inr (\<lparr>name = ''MyCalc'', value = 0\<rparr>,
          out @ ''Total: 15'' @ [newline] @ ''Condition met'' @ [newline])
   \<and> py_sum [1, 2, 3, 4, 5] = 15
   \<and> main_local g out ''total'' = Some (VInt 15)
   \<and> main_local g out ''x'' = Some (VInt 10)
   \<and> main_local g out ''y'' = Some (VInt 100)
   \<and> ((10::int) > 5 \<and> (100::int) < 200)"
  by (simp add: main_eval py_sum_def main_local_def main_frame_eval)

text \<open>
  C8. No call changes the instance: after any sequence of calls of \<open>add\<close> and
  \<open>multiply\<close> on \<open>Calculator(n)\<close>, the object is the one the constructor built, its name
  is \<open>n\<close> and its value is 0.
\<close>

theorem calculator_never_mutated:
  "invoke_all g (Calculator_init g n) cs = Calculator_init g n
   \<and> name (invoke_all g (Calculator_init g n) cs) = n
   \<and> value (invoke_all g (Calculator_init g n) cs) = 0
   \<and> snd (add g self x y) = self"
  by (simp add: invoke_all_keeps_instance Calculator_init_def add_def)


end
